theory Spec2Isabelle
  imports Complex_Main
begin

section \<open>Weather conditions (server/src/classes/WeatherCondition.ts)\<close>

text \<open>
  In the weather classes JavaScript numbers are modelled as reals: the classes compare
  them with thresholds and return literals, and do no arithmetic on them (NaN and the
  infinities are left to the caller, as the classes do no validation of their own). The
  vehicle and ETA code further down computes, and is modelled over doubles. The
  OpenWeatherMap condition code is an integer. The \<open>timestamp\<close> field of the base class is the wall clock at construction and
  is read by no operation modelled here, so it is left out.
\<close>

datatype ImpactLevel = ImpactNone | Low | Medium | High | Critical

datatype Intensity = Light | Moderate | Heavy

datatype Severity = SevLight | SevModerate | Severe

text \<open>
  One constructor per subclass of \<open>WeatherCondition\<close>; the arguments are those of the
  subclass constructor, in its order: temp, wind, humidity and the fields of the subclass.
\<close>

datatype WeatherCondition =
    ClearWeather real real real
  | CloudyWeather real real real real
  | RainWeather real real real Intensity
  | StormWeather real real real Severity bool
  | FogWeather real real real real
  | SnowWeather real real real Intensity real

fun getTemperature :: "WeatherCondition \<Rightarrow> real" where
  "getTemperature (ClearWeather t w h) = t"
| "getTemperature (CloudyWeather t w h c) = t"
| "getTemperature (RainWeather t w h i) = t"
| "getTemperature (StormWeather t w h s l) = t"
| "getTemperature (FogWeather t w h v) = t"
| "getTemperature (SnowWeather t w h i a) = t"

fun getWindSpeed :: "WeatherCondition \<Rightarrow> real" where
  "getWindSpeed (ClearWeather t w h) = w"
| "getWindSpeed (CloudyWeather t w h c) = w"
| "getWindSpeed (RainWeather t w h i) = w"
| "getWindSpeed (StormWeather t w h s l) = w"
| "getWindSpeed (FogWeather t w h v) = w"
| "getWindSpeed (SnowWeather t w h i a) = w"

fun getHumidity :: "WeatherCondition \<Rightarrow> real" where
  "getHumidity (ClearWeather t w h) = h"
| "getHumidity (CloudyWeather t w h c) = h"
| "getHumidity (RainWeather t w h i) = h"
| "getHumidity (StormWeather t w h s l) = h"
| "getHumidity (FogWeather t w h v) = h"
| "getHumidity (SnowWeather t w h i a) = h"

fun getConditionType :: "WeatherCondition \<Rightarrow> string" where
  "getConditionType (ClearWeather t w h) = ''clear''"
| "getConditionType (CloudyWeather t w h c) = ''cloudy''"
| "getConditionType (RainWeather t w h i) = ''rain''"
| "getConditionType (StormWeather t w h s l) = ''storm''"
| "getConditionType (FogWeather t w h v) = ''fog''"
| "getConditionType (SnowWeather t w h i a) = ''snow''"

fun assessImpact :: "WeatherCondition \<Rightarrow> ImpactLevel" where
  "assessImpact (ClearWeather t w h) = (if w > 15 then Low else ImpactNone)"
| "assessImpact (CloudyWeather t w h c) = (if c > 90 \<and> w > 10 then Low else ImpactNone)"
| "assessImpact (RainWeather t w h i) =
     (if i = Heavy then Medium else if i = Moderate then Low else ImpactNone)"
| "assessImpact (StormWeather t w h s l) =
     (if s = Severe \<or> l then Critical else if s = SevModerate then High else Medium)"
| "assessImpact (FogWeather t w h v) =
     (if v < 200 then Critical
      else if v < 500 then High
      else if v < 1000 then Medium
      else if v < 2000 then Low
      else ImpactNone)"
| "assessImpact (SnowWeather t w h i a) =
     (if i = Heavy \<or> a > 5 then High else if i = Moderate then Medium else Low)"

fun getDelayFactor :: "WeatherCondition \<Rightarrow> real" where
  "getDelayFactor (ClearWeather t w h) = (if w > 15 then 0.05 else 0)"
| "getDelayFactor (CloudyWeather t w h c) = (if c > 90 then 0.05 else 0)"
| "getDelayFactor (RainWeather t w h i) =
     (if i = Heavy then 0.2 else if i = Moderate then 0.1 else 0.05)"
| "getDelayFactor (StormWeather t w h s l) =
     (if s = Severe then 0.5 else if s = SevModerate then 0.3 else 0.15)"
| "getDelayFactor (FogWeather t w h v) =
     (if v < 200 then 0.6
      else if v < 500 then 0.4
      else if v < 1000 then 0.25
      else if v < 2000 then 0.15
      else 0.05)"
| "getDelayFactor (SnowWeather t w h i a) =
     (if i = Heavy then 0.4 else if i = Moderate then 0.25 else 0.1)"

fun shouldGroundFlights :: "WeatherCondition \<Rightarrow> bool" where
  "shouldGroundFlights (ClearWeather t w h) = (w > 25)"
| "shouldGroundFlights (CloudyWeather t w h c) = False"
| "shouldGroundFlights (RainWeather t w h i) = (i = Heavy \<and> w > 15)"
| "shouldGroundFlights (StormWeather t w h s l) = (s = Severe \<or> l)"
| "shouldGroundFlights (FogWeather t w h v) = (v < 200)"
| "shouldGroundFlights (SnowWeather t w h i a) = (i = Heavy \<and> a > 5)"

subsection \<open>WeatherFactory.createFromApiData\<close>

record WeatherEntry =
  weather_id :: int
  main :: string
  description :: string

record ApiData =
  temp :: real
  wind_speed :: real
  humidity :: real
  visibility :: "real option"
  clouds :: "real option"
  weather :: "WeatherEntry list option"

text \<open>\<open>x || d\<close> on an optional number: an absent value and 0 are both falsy.\<close>

definition orDefault :: "real option \<Rightarrow> real \<Rightarrow> real" where
  "orDefault x d = (case x of None \<Rightarrow> d | Some v \<Rightarrow> if v = 0 then d else v)"

text \<open>
  \<open>data.weather?.[0]?.id || 800\<close>: a missing array, an empty array and the id 0 all
  give 800. The snow branch of the factory passes no accumulation to the constructor,
  whose default is 0.
\<close>

definition weatherIdOf :: "ApiData \<Rightarrow> int" where
  "weatherIdOf d =
     (case weather d of
        None \<Rightarrow> 800
      | Some [] \<Rightarrow> 800
      | Some (e # es) \<Rightarrow> if weather_id e = 0 then 800 else weather_id e)"

definition createFromApiData :: "ApiData \<Rightarrow> WeatherCondition" where
  "createFromApiData d =
     (let weatherId = weatherIdOf d;
          t = temp d;
          wind = wind_speed d;
          hum = humidity d;
          vis = orDefault (visibility d) 10000;
          cl = orDefault (clouds d) 0
      in if weatherId \<ge> 200 \<and> weatherId < 300 then
           StormWeather t wind hum
             (if weatherId \<ge> 212 then Severe
              else if weatherId \<ge> 211 then SevModerate else SevLight)
             (weatherId \<ge> 210)
         else if weatherId \<ge> 300 \<and> weatherId < 600 then
           RainWeather t wind hum
             (if weatherId \<ge> 502 then Heavy
              else if weatherId \<ge> 500 then Moderate else Light)
         else if weatherId \<ge> 600 \<and> weatherId < 700 then
           SnowWeather t wind hum
             (if weatherId \<ge> 622 then Heavy
              else if weatherId \<ge> 600 then Moderate else Light)
             0
         else if weatherId \<ge> 700 \<and> weatherId < 800 then
           FogWeather t wind hum vis
         else if weatherId = 800 then
           ClearWeather t wind hum
         else
           CloudyWeather t wind hum cl)"

section \<open>Shipment statuses (server/src/classes/ShipmentStatus.ts)\<close>

text \<open>
  One constructor per subclass of \<open>ShipmentStatus\<close>; DelayedStatus and CancelledStatus
  carry their reason. Names and descriptions are what each constructor passes to the base
  class.
\<close>

datatype ShipmentStatus =
    PendingStatus
  | DepartedStatus
  | InTransitStatus
  | ArrivedStatus
  | DelayedStatus string
  | CancelledStatus string

fun getStatusName :: "ShipmentStatus \<Rightarrow> string" where
  "getStatusName PendingStatus = ''pending''"
| "getStatusName DepartedStatus = ''departed''"
| "getStatusName InTransitStatus = ''in_transit''"
| "getStatusName ArrivedStatus = ''arrived''"
| "getStatusName (DelayedStatus r) = ''delayed''"
| "getStatusName (CancelledStatus r) = ''cancelled''"

fun getDescription :: "ShipmentStatus \<Rightarrow> string" where
  "getDescription PendingStatus = ''Shipment awaiting assignment to flight''"
| "getDescription DepartedStatus = ''Shipment has departed from origin''"
| "getDescription InTransitStatus = ''Shipment is currently in transit''"
| "getDescription ArrivedStatus = ''Shipment has arrived at destination''"
| "getDescription (DelayedStatus r) = ''Shipment delayed: '' @ r"
| "getDescription (CancelledStatus r) = ''Shipment cancelled: '' @ r"

text \<open>\<open>[...].includes(nextStatus)\<close> is membership in the literal array.\<close>

fun canTransitionTo :: "ShipmentStatus \<Rightarrow> string \<Rightarrow> bool" where
  "canTransitionTo PendingStatus nextStatus =
     (nextStatus \<in> set [''departed'', ''cancelled''])"
| "canTransitionTo DepartedStatus nextStatus =
     (nextStatus \<in> set [''in_transit'', ''delayed'', ''cancelled''])"
| "canTransitionTo InTransitStatus nextStatus =
     (nextStatus \<in> set [''arrived'', ''delayed''])"
| "canTransitionTo ArrivedStatus nextStatus = False"
| "canTransitionTo (DelayedStatus r) nextStatus =
     (nextStatus \<in> set [''departed'', ''in_transit'', ''arrived'', ''cancelled''])"
| "canTransitionTo (CancelledStatus r) nextStatus = False"

fun getPriority :: "ShipmentStatus \<Rightarrow> nat" where
  "getPriority PendingStatus = 2"
| "getPriority DepartedStatus = 3"
| "getPriority InTransitStatus = 4"
| "getPriority ArrivedStatus = 5"
| "getPriority (DelayedStatus r) = 1"
| "getPriority (CancelledStatus r) = 6"

subsection \<open>StatusFactory\<close>

text \<open>
  \<open>String.prototype.toLowerCase\<close>, as far as the six status names can tell: A..Z map
  to a..z and every other character is kept. (The only character outside ASCII that
  JavaScript lowers to an ASCII letter is the Kelvin sign, to k, and no status name
  contains a k.)
\<close>

definition toLowerChar :: "char \<Rightarrow> char" where
  "toLowerChar c =
     (let n = (of_char c :: nat) in if 65 \<le> n \<and> n \<le> 90 then char_of (n + 32) else c)"

definition toLowerCase :: "string \<Rightarrow> string" where
  "toLowerCase s = map toLowerChar s"

datatype error = UnknownStatusType string

text \<open>
  The switch of \<open>createStatus\<close>; the \<open>default\<close> branch throws
  \<open>Error(`Unknown status type: ${statusType}`)\<close>, with the name as it was passed.
  A reason left out takes the default of the constructor's parameter.
\<close>

definition createStatus :: "string \<Rightarrow> string option \<Rightarrow> error + ShipmentStatus" where
  "createStatus statusType reason =
     (let s = toLowerCase statusType in
      if s = ''pending'' then Inr PendingStatus
      else if s = ''departed'' then Inr DepartedStatus
      else if s = ''in_transit'' then Inr InTransitStatus
      else if s = ''arrived'' then Inr ArrivedStatus
      else if s = ''delayed'' then
        Inr (DelayedStatus (case reason of None \<Rightarrow> ''Unknown reason'' | Some r \<Rightarrow> r))
      else if s = ''cancelled'' then
        Inr (CancelledStatus (case reason of None \<Rightarrow> ''No reason provided'' | Some r \<Rightarrow> r))
      else Inl (UnknownStatusType statusType))"

definition getValidStatuses :: "string list" where
  "getValidStatuses =
     [''pending'', ''departed'', ''in_transit'', ''arrived'', ''delayed'', ''cancelled'']"

definition isValidTransition :: "string \<Rightarrow> string \<Rightarrow> error + bool" where
  "isValidTransition currentStatus newStatus =
     (case createStatus currentStatus None of
        Inl e \<Rightarrow> Inl e
      | Inr status \<Rightarrow> Inr (canTransitionTo status newStatus))"

text \<open>
  The transition table as the specification words it (source, allowed targets); the
  results below compare it with the methods above.
\<close>

definition transitionTable :: "(string \<times> string list) list" where
  "transitionTable =
     [(''pending'', [''departed'', ''cancelled'']),
      (''departed'', [''in_transit'', ''delayed'', ''cancelled'']),
      (''in_transit'', [''arrived'', ''delayed'']),
      (''delayed'', [''departed'', ''in_transit'', ''arrived'', ''cancelled'']),
      (''arrived'', []),
      (''cancelled'', [])]"

definition tableAllows :: "string \<Rightarrow> string \<Rightarrow> bool" where
  "tableAllows s t = (case map_of transitionTable s of None \<Rightarrow> False | Some ts \<Rightarrow> t \<in> set ts)"

section \<open>IEEE 754 doubles\<close>

text \<open>
  The numbers of the vehicle and ETA code are JavaScript Numbers: IEEE 754 binary64 values
  with round-to-nearest, ties-to-even arithmetic. A finite double is modelled by the real
  number it denotes (the two zeros are not told apart: nothing below divides by a zero or
  inspects its sign), next to the two infinities and NaN. \<open>rnd\<close> rounds an exact result to
  the nearest double: the unit in the last place is \<open>2 powi (e - 52)\<close> for the exponent e
  of the value, not below the subnormal exponent -1022, and a result of magnitude 2^1024
  or more overflows.
\<close>

datatype double = Fin real | PosInf | NegInf | NaN

definition roundHalfEven :: "real \<Rightarrow> int" where
  "roundHalfEven x =
     (let f = \<lfloor>x\<rfloor>; d = x - of_int f in
      if d < 1 / 2 then f
      else if d > 1 / 2 then f + 1
      else if even f then f else f + 1)"

definition rnd :: "real \<Rightarrow> double" where
  "rnd x =
     (if x = 0 then Fin 0
      else
        let e = max (- 1022) \<lfloor>log 2 \<bar>x\<bar>\<rfloor>;
            u = 2 powi (e - 52);
            y = of_int (roundHalfEven (x / u)) * u
        in if y \<ge> 2 ^ 1024 then PosInf
           else if y \<le> - (2 ^ 1024) then NegInf
           else Fin y)"


text \<open>
  The arithmetic operators: the exact result of finite operands is rounded; the other
  cases are those of IEEE 754.
\<close>

fun dneg :: "double \<Rightarrow> double" where
  "dneg (Fin x) = Fin (- x)"
| "dneg PosInf = NegInf"
| "dneg NegInf = PosInf"
| "dneg NaN = NaN"

fun dadd :: "double \<Rightarrow> double \<Rightarrow> double" where
  "dadd (Fin x) (Fin y) = rnd (x + y)"
| "dadd NaN b = NaN"
| "dadd a NaN = NaN"
| "dadd PosInf NegInf = NaN"
| "dadd NegInf PosInf = NaN"
| "dadd PosInf b = PosInf"
| "dadd a PosInf = PosInf"
| "dadd NegInf b = NegInf"
| "dadd a NegInf = NegInf"

definition dsub :: "double \<Rightarrow> double \<Rightarrow> double" where
  "dsub a b = dadd a (dneg b)"

definition signedInf :: "real \<Rightarrow> double" where
  "signedInf s = (if s = 0 then NaN else if s > 0 then PosInf else NegInf)"

fun dmul :: "double \<Rightarrow> double \<Rightarrow> double" where
  "dmul (Fin x) (Fin y) = rnd (x * y)"
| "dmul NaN b = NaN"
| "dmul a NaN = NaN"
| "dmul (Fin x) PosInf = signedInf x"
| "dmul (Fin x) NegInf = signedInf (- x)"
| "dmul PosInf (Fin y) = signedInf y"
| "dmul NegInf (Fin y) = signedInf (- y)"
| "dmul PosInf PosInf = PosInf"
| "dmul NegInf NegInf = PosInf"
| "dmul PosInf NegInf = NegInf"
| "dmul NegInf PosInf = NegInf"

fun ddiv :: "double \<Rightarrow> double \<Rightarrow> double" where
  "ddiv (Fin x) (Fin y) = (if y = 0 then signedInf x else rnd (x / y))"
| "ddiv NaN b = NaN"
| "ddiv a NaN = NaN"
| "ddiv (Fin x) b = Fin 0"
| "ddiv PosInf (Fin y) = (if y < 0 then NegInf else PosInf)"
| "ddiv NegInf (Fin y) = (if y < 0 then PosInf else NegInf)"
| "ddiv a b = NaN"

text \<open>
  Comparisons (every comparison with NaN is false), \<open>===\<close>, the truthiness of a Number
  (0 and NaN are falsy), \<open>Number.isFinite\<close>, \<open>Math.max\<close> of two Numbers and \<open>Math.round\<close>
  (to the nearest integer, a tie towards plus infinity).
\<close>

fun dle :: "double \<Rightarrow> double \<Rightarrow> bool" where
  "dle (Fin x) (Fin y) = (x \<le> y)"
| "dle NaN b = False"
| "dle a NaN = False"
| "dle NegInf b = True"
| "dle a PosInf = True"
| "dle a b = False"

fun dlt :: "double \<Rightarrow> double \<Rightarrow> bool" where
  "dlt (Fin x) (Fin y) = (x < y)"
| "dlt NaN b = False"
| "dlt a NaN = False"
| "dlt PosInf b = False"
| "dlt a NegInf = False"
| "dlt a b = True"

definition dge :: "double \<Rightarrow> double \<Rightarrow> bool" where
  "dge a b = dle b a"

definition dgt :: "double \<Rightarrow> double \<Rightarrow> bool" where
  "dgt a b = dlt b a"

definition strictEq :: "double \<Rightarrow> double \<Rightarrow> bool" where
  "strictEq a b = (a \<noteq> NaN \<and> a = b)"

definition truthy :: "double \<Rightarrow> bool" where
  "truthy a = (a \<noteq> NaN \<and> a \<noteq> Fin 0)"

definition isFinite :: "double \<Rightarrow> bool" where
  "isFinite a = (case a of Fin x \<Rightarrow> True | _ \<Rightarrow> False)"

definition Math_max :: "double \<Rightarrow> double \<Rightarrow> double" where
  "Math_max a b = (if a = NaN \<or> b = NaN then NaN else if dle a b then b else a)"

fun Math_round :: "double \<Rightarrow> double" where
  "Math_round (Fin x) = Fin (of_int \<lfloor>x + 1 / 2\<rfloor>)"
| "Math_round a = a"

text \<open>
  The platform's \<open>Math\<close> object. ECMAScript leaves the values of sin, cos, sqrt and atan2
  at ordinary arguments to the implementation, so they are parameters: a \<open>MathLib\<close> gives
  \<open>Math.PI\<close> and the functions on finite arguments (atan2 on all arguments but NaN).
  What the language fixes is written out: NaN and infinite arguments of sin and cos give
  NaN, the square root of a negative number is NaN, atan2 of a NaN is NaN.
\<close>

record MathLib =
  Math_PI :: double
  sin_finite :: "real \<Rightarrow> double"
  cos_finite :: "real \<Rightarrow> double"
  sqrt_finite :: "real \<Rightarrow> double"
  atan2_numbers :: "double \<Rightarrow> double \<Rightarrow> double"

fun Math_sin :: "MathLib \<Rightarrow> double \<Rightarrow> double" where
  "Math_sin lib (Fin x) = sin_finite lib x"
| "Math_sin lib a = NaN"

fun Math_cos :: "MathLib \<Rightarrow> double \<Rightarrow> double" where
  "Math_cos lib (Fin x) = cos_finite lib x"
| "Math_cos lib a = NaN"

fun Math_sqrt :: "MathLib \<Rightarrow> double \<Rightarrow> double" where
  "Math_sqrt lib (Fin x) = (if x < 0 then NaN else sqrt_finite lib x)"
| "Math_sqrt lib PosInf = PosInf"
| "Math_sqrt lib a = NaN"

definition Math_atan2 :: "MathLib \<Rightarrow> double \<Rightarrow> double \<Rightarrow> double" where
  "Math_atan2 lib y x = (if y = NaN \<or> x = NaN then NaN else atan2_numbers lib y x)"

section \<open>Vehicles and flights (server/src/classes/Vehicle.ts, Flight.ts)\<close>

text \<open>
  The fields of the client's \<open>FlightData\<close> that the page reads for the ETA, the weather
  verdicts it receives (the JSON of a WeatherCondition), the shipment's destination, and
  the protected fields of \<open>Vehicle\<close> (without the update time) with what Flight adds.
  Integer literals of the source are exact doubles; 3.6, 0.4, 0.2 and 0.1 are rounded.
\<close>

record FlightData =
  icao24 :: string
  latitude :: double
  longitude :: double
  speed :: double

record WeatherData =
  type :: string
  delayFactor :: double

record RouteWeather =
  origin :: "WeatherData option"
  destination :: "WeatherData option"

record Shipment =
  dest_lat :: "double option"
  dest_lon :: "double option"

record Vehicle =
  vehicle_id :: string
  latitude :: double
  longitude :: double
  speed :: double

record Flight = Vehicle +
  icao24 :: string
  callsign :: string
  altitude :: double
  heading :: double
  originCountry :: string
  verticalRate :: double
  onGround :: bool

definition toRad :: "MathLib \<Rightarrow> double \<Rightarrow> double" where
  "toRad lib deg = dmul deg (ddiv (Math_PI lib) (Fin 180))"

definition distanceTo :: "MathLib \<Rightarrow> 'a Vehicle_scheme \<Rightarrow> double \<Rightarrow> double \<Rightarrow> double" where
  "distanceTo lib v targetLat targetLon =
     (let R = Fin 6371;
          dLat = toRad lib (dsub targetLat (latitude v));
          dLon = toRad lib (dsub targetLon (longitude v));
          a = dadd
                (dmul (Math_sin lib (ddiv dLat (Fin 2))) (Math_sin lib (ddiv dLat (Fin 2))))
                (dmul
                  (dmul
                    (dmul (Math_cos lib (toRad lib (latitude v))) (Math_cos lib (toRad lib targetLat)))
                    (Math_sin lib (ddiv dLon (Fin 2))))
                  (Math_sin lib (ddiv dLon (Fin 2))));
          c = dmul (Fin 2) (Math_atan2 lib (Math_sqrt lib a) (Math_sqrt lib (dsub (Fin 1) a)))
      in dmul R c)"

text \<open>\<open>Flight.calculateETA\<close>: minutes to the destination, Infinity when the flight stands.\<close>

definition Flight_calculateETA :: "MathLib \<Rightarrow> Flight \<Rightarrow> double \<Rightarrow> double \<Rightarrow> double" where
  "Flight_calculateETA lib v destLat destLon =
     (let distanceKm = distanceTo lib v destLat destLon;
          speedKmh = dmul (speed v) (rnd 3.6)
      in if dle speedKmh (Fin 0) then PosInf
         else let hoursToArrival = ddiv distanceKm speedKmh
              in Math_round (dmul hoursToArrival (Fin 60)))"

section \<open>The ETA of the shipment page (client/src/pages/ShipmentDetail.tsx)\<close>

definition calculateDistance ::
  "MathLib \<Rightarrow> double \<Rightarrow> double \<Rightarrow> double \<Rightarrow> double \<Rightarrow> double" where
  "calculateDistance lib lat1 lon1 lat2 lon2 =
     (let R = Fin 6371;
          dLat = ddiv (dmul (dsub lat2 lat1) (Math_PI lib)) (Fin 180);
          dLon = ddiv (dmul (dsub lon2 lon1) (Math_PI lib)) (Fin 180);
          a = dadd
                (dmul (Math_sin lib (ddiv dLat (Fin 2))) (Math_sin lib (ddiv dLat (Fin 2))))
                (dmul
                  (dmul
                    (dmul (Math_cos lib (ddiv (dmul lat1 (Math_PI lib)) (Fin 180)))
                          (Math_cos lib (ddiv (dmul lat2 (Math_PI lib)) (Fin 180))))
                    (Math_sin lib (ddiv dLon (Fin 2))))
                  (Math_sin lib (ddiv dLon (Fin 2))));
          c = dmul (Fin 2) (Math_atan2 lib (Math_sqrt lib a) (Math_sqrt lib (dsub (Fin 1) a)))
      in dmul R c)"

record WeatherDelay =
  factor :: double
  reason :: string
  severity :: string

record WeatherDelayAdded = WeatherDelay +
  addedMinutes :: double

record ETAData =
  distanceKm :: double
  baseEtaMinutes :: double
  etaMinutes :: double
  etaTime :: "double option"
  weatherDelay :: WeatherDelayAdded

text \<open>
  \<open>weather.origin?.delayFactor || 0\<close> and \<open>weather.origin?.type || d\<close>: a missing verdict
  gives the default, and so does a falsy value (0, NaN, the empty string).
\<close>

definition delayOr0 :: "WeatherData option \<Rightarrow> double" where
  "delayOr0 w =
     (case w of None \<Rightarrow> Fin 0
      | Some x \<Rightarrow> if truthy (delayFactor x) then delayFactor x else Fin 0)"

definition typeOr :: "WeatherData option \<Rightarrow> string \<Rightarrow> string" where
  "typeOr w d = (case w of None \<Rightarrow> d | Some x \<Rightarrow> if type x = [] then d else type x)"

definition getWeatherDelayFactor :: "RouteWeather option \<Rightarrow> WeatherDelay" where
  "getWeatherDelayFactor pageWeather =
     (case pageWeather of
        None \<Rightarrow> \<lparr>factor = Fin 1, reason = ''No weather data'', severity = ''none''\<rparr>
      | Some w \<Rightarrow>
          let originDelay = delayOr0 (origin w);
              destDelay = delayOr0 (destination w);
              maxDelay = Math_max originDelay destDelay;
              factor = dadd (Fin 1) maxDelay
          in if dge maxDelay (rnd 0.4) then
               \<lparr>factor = factor,
                reason = (if strictEq maxDelay destDelay
                          then ''Severe weather at destination ('' @ typeOr (destination w) ''storm'' @ '')''
                          else ''Severe weather at origin ('' @ typeOr (origin w) ''storm'' @ '')''),
                severity = ''critical''\<rparr>
             else if dge maxDelay (rnd 0.2) then
               \<lparr>factor = factor,
                reason = (if strictEq maxDelay destDelay
                          then ''Poor weather at destination ('' @ typeOr (destination w) ''weather'' @ '')''
                          else ''Poor weather at origin ('' @ typeOr (origin w) ''weather'' @ '')''),
                severity = ''high''\<rparr>
             else if dge maxDelay (rnd 0.1) then
               \<lparr>factor = factor, reason = ''Moderate weather conditions'', severity = ''medium''\<rparr>
             else if dgt maxDelay (Fin 0) then
               \<lparr>factor = factor, reason = ''Minor weather impact'', severity = ''low''\<rparr>
             else
               \<lparr>factor = factor, reason = ''Clear conditions'', severity = ''none''\<rparr>)"

text \<open>A coordinate of the shipment is usable when it is there and truthy (\<open>!x\<close> is true of null, 0 and NaN).\<close>

definition present :: "double option \<Rightarrow> bool" where
  "present x = (case x of None \<Rightarrow> False | Some v \<Rightarrow> truthy v)"

text \<open>
  \<open>calculateETA\<close> reads the page's state: the assigned flight, the shipment, the weather
  (\<open>pageWeather\<close> here, the source's \<open>weather\<close>); \<open>now\<close> is \<open>Date.now()\<close>. The result is
  \<open>None\<close> for JavaScript's null; \<open>etaTime\<close> is the time value handed to \<open>new Date\<close>.
  The guard \<open>!flight || !lat || !lon\<close> is written as one negated conjunction.
\<close>

definition calculateETA ::
  "MathLib \<Rightarrow> double \<Rightarrow> FlightData option \<Rightarrow> Shipment option \<Rightarrow> RouteWeather option
     \<Rightarrow> ETAData option" where
  "calculateETA lib now assignedFlight shipment pageWeather =
     (case (assignedFlight, shipment) of
        (Some fl, Some sh) \<Rightarrow>
          (case (dest_lat sh, dest_lon sh) of
             (Some destLat, Some destLon) \<Rightarrow>
               if \<not> (truthy destLat \<and> truthy destLon) then None
               else
                 let distanceKm = calculateDistance lib (FlightData.latitude fl)
                                    (FlightData.longitude fl) destLat destLon;
                     speedKmh = dmul (FlightData.speed fl) (rnd 3.6)
                 in if dle speedKmh (Fin 0) then
                      Some \<lparr>distanceKm = distanceKm, baseEtaMinutes = PosInf,
                            etaMinutes = PosInf, etaTime = None,
                            weatherDelay = \<lparr>factor = Fin 1, reason = ''No weather data'',
                                            severity = ''none'', addedMinutes = Fin 0\<rparr>\<rparr>
                    else
                      let hoursToArrival = ddiv distanceKm speedKmh;
                          baseEtaMinutes = Math_round (dmul hoursToArrival (Fin 60));
                          wd = getWeatherDelayFactor pageWeather;
                          adjustedMinutes = Math_round (dmul baseEtaMinutes (factor wd));
                          addedMinutes = dsub adjustedMinutes baseEtaMinutes
                      in Some \<lparr>distanceKm = distanceKm, baseEtaMinutes = baseEtaMinutes,
                               etaMinutes = adjustedMinutes,
                               etaTime = Some (dadd now
                                                (dmul (dmul adjustedMinutes (Fin 60)) (Fin 1000))),
                               weatherDelay = \<lparr>factor = factor wd, reason = reason wd,
                                               severity = severity wd,
                                               addedMinutes = addedMinutes\<rparr>\<rparr>
           | _ \<Rightarrow> None)
      | _ \<Rightarrow> None)"

text \<open>
  The delay factors as the specification names them: the factor of a verdict, 0 when no
  weather or no verdict is supplied. A weather state is well formed when no supplied
  factor is NaN.
\<close>

definition suppliedDelay :: "WeatherData option \<Rightarrow> double" where
  "suppliedDelay v = (case v of None \<Rightarrow> Fin 0 | Some x \<Rightarrow> delayFactor x)"

definition originDelayFactor :: "RouteWeather option \<Rightarrow> double" where
  "originDelayFactor w = (case w of None \<Rightarrow> Fin 0 | Some rw \<Rightarrow> suppliedDelay (origin rw))"

definition destinationDelayFactor :: "RouteWeather option \<Rightarrow> double" where
  "destinationDelayFactor w =
     (case w of None \<Rightarrow> Fin 0 | Some rw \<Rightarrow> suppliedDelay (destination rw))"

definition noNaNDelay :: "RouteWeather option \<Rightarrow> bool" where
  "noNaNDelay w = (originDelayFactor w \<noteq> NaN \<and> destinationDelayFactor w \<noteq> NaN)"

definition validPosition :: "double \<Rightarrow> double \<Rightarrow> bool" where
  "validPosition lat lon =
     (dle (Fin (- 90)) lat \<and> dle lat (Fin 90) \<and> dle (Fin (- 180)) lon \<and> dle lon (Fin 180))"

subsection \<open>A reference Math library\<close>

text \<open>The exact two-argument arctangent, and its rounding with the limits at the infinities.\<close>

definition atan2Exact :: "real \<Rightarrow> real \<Rightarrow> real" where
  "atan2Exact y x =
     (if x > 0 then arctan (y / x)
      else if x < 0 then (if y \<ge> 0 then arctan (y / x) + pi else arctan (y / x) - pi)
      else if y > 0 then pi / 2
      else if y < 0 then - (pi / 2)
      else 0)"

fun atan2Rounded :: "double \<Rightarrow> double \<Rightarrow> double" where
  "atan2Rounded (Fin y) (Fin x) = rnd (atan2Exact y x)"
| "atan2Rounded NaN x = NaN"
| "atan2Rounded y NaN = NaN"
| "atan2Rounded (Fin y) PosInf = Fin 0"
| "atan2Rounded (Fin y) NegInf = (if y < 0 then rnd (- pi) else rnd pi)"
| "atan2Rounded PosInf (Fin x) = rnd (pi / 2)"
| "atan2Rounded NegInf (Fin x) = rnd (- (pi / 2))"
| "atan2Rounded PosInf PosInf = rnd (pi / 4)"
| "atan2Rounded PosInf NegInf = rnd (3 * pi / 4)"
| "atan2Rounded NegInf PosInf = rnd (- (pi / 4))"
| "atan2Rounded NegInf NegInf = rnd (- (3 * pi / 4))"

text \<open>
  A Math library for the closed examples below. It rounds the exact value of each function
  to the nearest double; the values at the arguments that the examples reach are written
  out, each the double nearest to the exact value. \<open>Math_PI\<close> is the double nearest to pi.
\<close>

definition referenceMath :: MathLib where
  "referenceMath =
     \<lparr>Math_PI = Fin (884279719003555 / 281474976710656),
      sin_finite =
        (\<lambda>x. if x = 3458516234325015 / 36028797018963968 then Fin (863301790670251 / 9007199254740992)
            else if x = 2878821751867129 / 4503599627370496 then Fin (1343367729212307 / 2251799813685248)
            else if x = - (5030569068109113 / 36028797018963968) then Fin (- (5014239404989977 / 36028797018963968))
            else if x = - (884279719003555 / 562949953421312) then Fin (- 1)
            else if x = 5030569068109113 / 36028797018963968 then Fin (5014239404989977 / 36028797018963968)
            else if x = 884279719003555 / 562949953421312 then Fin 1
            else rnd (sin x)),
      cos_finite =
        (\<lambda>x. if x = 1591703494206399 / 2251799813685248 then Fin (6849128046653203 / 9007199254740992)
            else if x = 8096072093988103 / 9007199254740992 then Fin (5607113371187727 / 9007199254740992)
            else if x = 5030569068109113 / 36028797018963968 then Fin (4459770905381437 / 4503599627370496)
            else if x = - (5030569068109113 / 36028797018963968) then Fin (4459770905381437 / 4503599627370496)
            else rnd (cos x)),
      sqrt_finite =
        (\<lambda>x. if x = 6400785408234431 / 36028797018963968 then Fin (7592967111663673 / 18014398509481984)
            else if x = 462937681417649 / 562949953421312 then Fin (4084003887880897 / 4503599627370496)
            else if x = 4503599627370497 / 4503599627370496 then Fin 1
            else rnd (sqrt x)),
      atan2_numbers =
        (\<lambda>y x. if y = Fin (7592967111663673 / 18014398509481984) \<and> x = Fin (4084003887880897 / 4503599627370496) then Fin (979741360882449 / 2251799813685248)
            else atan2Rounded y x)\<rparr>"

section \<open>The CSV report (server/src/classes/Report.ts)\<close>

text \<open>
  A row is a \<open>Record<string, unknown>\<close>: a map from column keys to values, a key that is
  missing reading as \<open>undefined\<close>. Dates are milliseconds since the epoch.
\<close>

datatype CellValue =
    Null
  | Undefined
  | StringV string
  | DateV int
  | NumberV real
  | BoolV bool

record ReportColumn =
  key :: string
  header :: string

definition dquote :: char where
  "dquote = CHR 0x22"

definition comma :: char where
  "comma = CHR 0x2C"

text \<open>\<open>value.replace(/"/g, '""')\<close>: every double quote is replaced, left to right.\<close>

fun replaceQuotes :: "string \<Rightarrow> string" where
  "replaceQuotes [] = []"
| "replaceQuotes (c # cs) =
     (if c = dquote then dquote # dquote # replaceQuotes cs else c # replaceQuotes cs)"

text \<open>\<open>Array.prototype.join\<close> with a one-character separator.\<close>

fun joinWith :: "char \<Rightarrow> string list \<Rightarrow> string" where
  "joinWith sep [] = []"
| "joinWith sep [x] = x"
| "joinWith sep (x # y # ys) = x @ sep # joinWith sep (y # ys)"

text \<open>
  The function mapped over the columns in the loop of \<open>CSVReport.generate\<close>, and one data
  line. \<open>toISOString\<close> and \<open>String\<close> are the library's conversions, taken as parameters.
\<close>

definition csvValue ::
  "(int \<Rightarrow> string) \<Rightarrow> (CellValue \<Rightarrow> string) \<Rightarrow> (string \<rightharpoonup> CellValue) \<Rightarrow> ReportColumn \<Rightarrow> string" where
  "csvValue toISOString String row col =
     (let v = (case row (key col) of None \<Rightarrow> Undefined | Some x \<Rightarrow> x) in
      case v of
        Null \<Rightarrow> [dquote, dquote]
      | Undefined \<Rightarrow> [dquote, dquote]
      | StringV s \<Rightarrow> dquote # replaceQuotes s @ [dquote]
      | DateV d \<Rightarrow> dquote # toISOString d @ [dquote]
      | _ \<Rightarrow> dquote # String v @ [dquote])"

definition csvRow ::
  "(int \<Rightarrow> string) \<Rightarrow> (CellValue \<Rightarrow> string) \<Rightarrow> ReportColumn list \<Rightarrow> (string \<rightharpoonup> CellValue) \<Rightarrow> string" where
  "csvRow toISOString String columns row =
     joinWith comma (map (csvValue toISOString String row) columns)"

subsection \<open>A reader of quoted fields\<close>

text \<open>
  The reading side, as the specification words it: a standard CSV reader that understands
  quoted fields (RFC 4180). \<open>readQuoted\<close> reads the inside of a quoted field, after the
  opening quote: a doubled quote is one quote of the value, a single quote closes the
  field; the result is the value and the rest of the input. A field that does not start
  with a quote runs up to the next comma.
\<close>

fun readQuoted :: "string \<Rightarrow> (string \<times> string) option" where
  "readQuoted [] = None"
| "readQuoted [c] = (if c = dquote then Some ([], []) else None)"
| "readQuoted (c # d # ds) =
     (if c = dquote then
        (if d = dquote then
           (case readQuoted ds of None \<Rightarrow> None | Some (f, r) \<Rightarrow> Some (dquote # f, r))
         else Some ([], d # ds))
      else (case readQuoted (d # ds) of None \<Rightarrow> None | Some (f, r) \<Rightarrow> Some (c # f, r)))"

definition readField :: "string \<Rightarrow> (string \<times> string) option" where
  "readField s =
     (case s of
        [] \<Rightarrow> Some ([], [])
      | c # cs \<Rightarrow>
          if c = dquote then readQuoted cs
          else Some (takeWhile (\<lambda>x. x \<noteq> comma) s, dropWhile (\<lambda>x. x \<noteq> comma) s))"

section \<open>Results about the weather classifier\<close>

text \<open>
  C10. Every condition code in 600..699 makes the factory build a SnowWeather whose
  intensity is moderate (600..621) or heavy (622..699), never light, with accumulation 0;
  such a verdict never grounds flights, and its impact is high exactly from code 622 on.
\<close>

theorem snow_from_factory:
  assumes "weather d = Some (e # es)"
      and "600 \<le> weather_id e" and "weather_id e < 700"
  shows "createFromApiData d =
           SnowWeather (temp d) (wind_speed d) (humidity d)
             (if weather_id e \<ge> 622 then Heavy else Moderate) 0
         \<and> \<not> shouldGroundFlights (createFromApiData d)
         \<and> (assessImpact (createFromApiData d) = High \<longleftrightarrow> weather_id e \<ge> 622)
         \<and> (weather_id e < 622 \<longrightarrow> assessImpact (createFromApiData d) = Medium)"
  using assms by (simp add: createFromApiData_def weatherIdOf_def Let_def)

theorem snow_from_factory_witness:
  "createFromApiData
     \<lparr>temp = -5, wind_speed = 8, humidity = 80, visibility = None, clouds = None,
      weather = Some [\<lparr>weather_id = 622, main = ''Snow'', description = ''heavy shower snow''\<rparr>]\<rparr>
     = SnowWeather (-5) 8 80 Heavy 0
   \<and> \<not> shouldGroundFlights (SnowWeather (-5) 8 80 Heavy 0)
   \<and> assessImpact (SnowWeather (-5) 8 80 Heavy 0) = High"
  using snow_from_factory
    [of "\<lparr>temp = -5, wind_speed = 8, humidity = 80, visibility = None, clouds = None,
          weather = Some [\<lparr>weather_id = 622, main = ''Snow'',
                           description = ''heavy shower snow''\<rparr>]\<rparr>"
        "\<lparr>weather_id = 622, main = ''Snow'', description = ''heavy shower snow''\<rparr>" "[]"]
  by simp

text \<open>
  C1, as stated, fails: a heavy rain with wind above 15 grounds flights, yet its impact
  is medium (the impact of rain depends on the intensity alone).
\<close>

theorem rain_grounds_with_medium_impact:
  "shouldGroundFlights (RainWeather 14 20 95 Heavy)
   \<and> assessImpact (RainWeather 14 20 95 Heavy) = Medium
   \<and> assessImpact (RainWeather 14 20 95 Heavy) \<noteq> High
   \<and> assessImpact (RainWeather 14 20 95 Heavy) \<noteq> Critical"
  by simp

text \<open>
  C1, amended. For every Storm, Fog or Snow verdict, grounding implies an impact of high
  or critical. A Rain verdict grounds exactly when it is heavy with wind above 15, and
  its impact is then medium.
\<close>

theorem grounding_implies_impact:
  assumes "shouldGroundFlights w"
      and "getConditionType w \<noteq> ''clear''" and "getConditionType w \<noteq> ''cloudy''"
  shows "if getConditionType w = ''rain'' then assessImpact w = Medium
         else assessImpact w = High \<or> assessImpact w = Critical"
  using assms by (cases w) auto

theorem grounding_implies_impact_witness:
  "shouldGroundFlights (SnowWeather (-8) 15 85 Heavy 8)
   \<and> assessImpact (SnowWeather (-8) 15 85 Heavy 8) = High"
  using grounding_implies_impact [of "SnowWeather (-8) 15 85 Heavy 8"]
  by simp

text \<open>
  C2, as stated, fails: with cloud coverage above 90 and wind at most 10 the impact is
  none, but the delay factor is 0.05, not 0.
\<close>

theorem cloudy_delay_ignores_wind:
  "getDelayFactor (CloudyWeather 20 5 70 95) = 0.05
   \<and> getDelayFactor (CloudyWeather 20 5 70 95) \<noteq> 0
   \<and> assessImpact (CloudyWeather 20 5 70 95) = ImpactNone"
  by simp

text \<open>
  C2, amended. The delay factor of a Cloudy verdict is 0.05 when the cloud coverage is
  above 90, whatever the wind, and 0 otherwise; its impact is low exactly when the
  coverage is above 90 and the wind above 10; a Cloudy verdict never grounds flights.
\<close>

theorem cloudy_delay_and_grounding:
  "getDelayFactor (CloudyWeather t w h c) = (if c > 90 then 0.05 else 0)
   \<and> (assessImpact (CloudyWeather t w h c) = Low) = (c > 90 \<and> w > 10)
   \<and> (assessImpact (CloudyWeather t w h c) \<noteq> Low) = (assessImpact (CloudyWeather t w h c) = ImpactNone)
   \<and> shouldGroundFlights (CloudyWeather t w h c) = False"
  by simp

lemma createFromApiData_in_range:
  "getConditionType (createFromApiData d) =
     (let c = weatherIdOf d in
      if 200 \<le> c \<and> c < 300 then ''storm''
      else if 300 \<le> c \<and> c < 600 then ''rain''
      else if 600 \<le> c \<and> c < 700 then ''snow''
      else if 700 \<le> c \<and> c < 800 then ''fog''
      else if c = 800 then ''clear''
      else ''cloudy'')"
  by (simp add: createFromApiData_def Let_def)

lemma createFromApiData_missing_code:
  assumes "weather d = None \<or> weather d = Some []"
  shows "createFromApiData d = ClearWeather (temp d) (wind_speed d) (humidity d)"
  using assms by (auto simp: createFromApiData_def weatherIdOf_def Let_def)

text \<open>
  C3. The factory's last branch is not guarded by 801..899: a condition code outside
  every range (and other than 0, which is falsy and becomes 800) is classified as Cloudy,
  not Clear. Shown at the codes 950 and 150.
\<close>

theorem unknown_code_is_cloudy:
  "createFromApiData
     \<lparr>temp = 20, wind_speed = 7, humidity = 65, visibility = None, clouds = Some 75,
      weather = Some [\<lparr>weather_id = 950, main = ''Extreme'', description = ''unknown''\<rparr>]\<rparr>
     = CloudyWeather 20 7 65 75
   \<and> createFromApiData
     \<lparr>temp = 20, wind_speed = 7, humidity = 65, visibility = None, clouds = None,
      weather = Some [\<lparr>weather_id = 150, main = ''Other'', description = ''unknown''\<rparr>]\<rparr>
     = CloudyWeather 20 7 65 0"
  by (simp add: createFromApiData_def weatherIdOf_def orDefault_def)

section \<open>Results about the shipment lifecycle\<close>

lemma toLowerCase_names:
  "toLowerCase ''pending'' = ''pending''"
  "toLowerCase ''departed'' = ''departed''"
  "toLowerCase ''in_transit'' = ''in_transit''"
  "toLowerCase ''arrived'' = ''arrived''"
  "toLowerCase ''delayed'' = ''delayed''"
  "toLowerCase ''cancelled'' = ''cancelled''"
  by (simp_all add: toLowerCase_def toLowerChar_def)

lemma createStatus_names:
  "createStatus ''pending'' r = Inr PendingStatus"
  "createStatus ''departed'' r = Inr DepartedStatus"
  "createStatus ''in_transit'' r = Inr InTransitStatus"
  "createStatus ''arrived'' r = Inr ArrivedStatus"
  "createStatus ''delayed'' r =
     Inr (DelayedStatus (case r of None \<Rightarrow> ''Unknown reason'' | Some x \<Rightarrow> x))"
  "createStatus ''cancelled'' r =
     Inr (CancelledStatus (case r of None \<Rightarrow> ''No reason provided'' | Some x \<Rightarrow> x))"
  by (simp_all add: createStatus_def toLowerCase_names)

lemma tableAllows_simps:
  "tableAllows ''pending'' t = (t = ''departed'' \<or> t = ''cancelled'')"
  "tableAllows ''departed'' t = (t = ''in_transit'' \<or> t = ''delayed'' \<or> t = ''cancelled'')"
  "tableAllows ''in_transit'' t = (t = ''arrived'' \<or> t = ''delayed'')"
  "tableAllows ''delayed'' t =
     (t = ''departed'' \<or> t = ''in_transit'' \<or> t = ''arrived'' \<or> t = ''cancelled'')"
  "tableAllows ''arrived'' t = False"
  "tableAllows ''cancelled'' t = False"
  by (simp_all add: tableAllows_def transitionTable_def)

text \<open>
  C4. For every status name s of the six, the status object built for s (with or without
  a reason) answers canTransitionTo(t) as the table does, for every target t of the six
  (indeed for every string t); for arrived and cancelled it answers false for every
  target whatsoever; and StatusFactory.isValidTransition returns the same answer.
\<close>

theorem canTransitionTo_table:
  assumes "s \<in> set getValidStatuses"
  shows "\<exists>st. createStatus s r = Inr st
            \<and> getStatusName st = s
            \<and> (\<forall>t. canTransitionTo st t = tableAllows s t)
            \<and> (\<forall>t. isValidTransition s t = Inr (tableAllows s t))
            \<and> (\<forall>t. (s = ''arrived'' \<or> s = ''cancelled'') \<longrightarrow> canTransitionTo st t = False)"
proof -
  have names: "s = ''pending'' \<or> s = ''departed'' \<or> s = ''in_transit''
      \<or> s = ''arrived'' \<or> s = ''delayed'' \<or> s = ''cancelled''"
    using assms unfolding getValidStatuses_def by simp
  have pending: ?thesis if "s = ''pending''"
    unfolding that by (simp add: createStatus_names tableAllows_simps isValidTransition_def)
  have departed: ?thesis if "s = ''departed''"
    unfolding that by (simp add: createStatus_names tableAllows_simps isValidTransition_def)
  have in_transit: ?thesis if "s = ''in_transit''"
    unfolding that by (simp add: createStatus_names tableAllows_simps isValidTransition_def)
  have arrived: ?thesis if "s = ''arrived''"
    unfolding that by (simp add: createStatus_names tableAllows_simps isValidTransition_def)
  have delayed: ?thesis if "s = ''delayed''"
    unfolding that by (simp add: createStatus_names tableAllows_simps isValidTransition_def)
  have cancelled: ?thesis if "s = ''cancelled''"
    unfolding that by (simp add: createStatus_names tableAllows_simps isValidTransition_def)
  from names pending departed in_transit arrived delayed cancelled
  show ?thesis by (elim disjE)
qed

theorem canTransitionTo_table_witness:
  "createStatus ''delayed'' (Some ''fog at origin'') = Inr (DelayedStatus ''fog at origin'')
   \<and> canTransitionTo (DelayedStatus ''fog at origin'') ''arrived''
   \<and> \<not> canTransitionTo (DelayedStatus ''fog at origin'') ''pending''
   \<and> isValidTransition ''delayed'' ''arrived'' = Inr True
   \<and> isValidTransition ''delayed'' ''pending'' = Inr False
   \<and> createStatus ''arrived'' None = Inr ArrivedStatus
   \<and> \<not> canTransitionTo ArrivedStatus ''departed''
   \<and> isValidTransition ''arrived'' ''not a status'' = Inr False"
  using canTransitionTo_table [of "''delayed''" "Some ''fog at origin''"]
    canTransitionTo_table [of "''arrived''" None]
  by (simp add: getValidStatuses_def createStatus_names tableAllows_simps)

text \<open>
  C9. When the current status name is none of the six names, in any letter case,
  StatusFactory.isValidTransition throws the 'Unknown status type' error carrying that
  name, for every target; it does not return false.
\<close>

theorem isValidTransition_unknown_throws:
  assumes "toLowerCase c \<notin> set getValidStatuses"
  shows "isValidTransition c t = Inl (UnknownStatusType c)
         \<and> isValidTransition c t \<noteq> Inr False"
  using assms by (simp add: isValidTransition_def createStatus_def getValidStatuses_def)

theorem isValidTransition_unknown_throws_witness:
  "toLowerCase ''Shipped'' = ''shipped''
   \<and> isValidTransition ''Shipped'' ''arrived'' = Inl (UnknownStatusType ''Shipped'')"
proof -
  have lower: "toLowerCase ''Shipped'' = ''shipped''"
    by code_simp
  show ?thesis
    using isValidTransition_unknown_throws [of "''Shipped''" "''arrived''"] lower
    by (simp add: getValidStatuses_def)
qed

section \<open>Results about doubles\<close>

lemma two_powi_diff:
  fixes k :: nat
  shows "(2::real) powi (int n - int k) = 2 ^ n / 2 ^ k"
  by (simp add: power_int_diff)

lemma rnd_eval:
  fixes k :: nat
  assumes k: "k \<le> 1074"
      and lo: "2 ^ 52 \<le> \<bar>x\<bar> * 2 ^ k"
      and hi: "\<bar>x\<bar> * 2 ^ k < 2 ^ 53"
      and m: "roundHalfEven (x * 2 ^ k) = m"
  shows "rnd x = Fin (of_int m / 2 ^ k)"
proof -
  have x0: "x \<noteq> 0" using lo by auto
  have pos: "0 < \<bar>x\<bar>" using x0 by simp
  have "(2::real) powr real_of_int (52 - int k) = 2 powi (52 - int k)"
    by (rule powr_real_of_int') simp_all
  also have "\<dots> = 2 ^ 52 / 2 ^ k"
    using two_powi_diff [of 52 k] by simp
  finally have p1: "(2::real) powr real_of_int (52 - int k) = 2 ^ 52 / 2 ^ k" .
  have eq53: "52 - int k + 1 = int 53 - int k" by simp
  have "(2::real) powr real_of_int (int 53 - int k) = 2 powi (int 53 - int k)"
    by (rule powr_real_of_int') simp_all
  also have "\<dots> = 2 ^ 53 / 2 ^ k"
    by (rule two_powi_diff)
  finally have p2: "(2::real) powr real_of_int (52 - int k + 1) = 2 ^ 53 / 2 ^ k"
    unfolding eq53 .
  have lo': "(2::real) powr real_of_int (52 - int k) \<le> \<bar>x\<bar>"
    unfolding p1 using lo by (simp add: field_simps)
  have hi': "\<bar>x\<bar> < (2::real) powr real_of_int (52 - int k + 1)"
    unfolding p2 using hi by (simp add: field_simps)
  have "\<lfloor>log 2 \<bar>x\<bar>\<rfloor> = 52 - int k"
    by (rule floor_log_eq_powr_iff [THEN iffD2, OF pos _ conjI [OF lo' hi']]) simp
  then have e: "max (- 1022) \<lfloor>log 2 \<bar>x\<bar>\<rfloor> = 52 - int k"
    using k by simp
  have u: "(2::real) powi (52 - int k - 52) = 1 / 2 ^ k"
    using two_powi_diff [of 0 k] by simp
  have fl: "real_of_int \<lfloor>x * 2 ^ k\<rfloor> \<le> x * 2 ^ k" by simp
  have fu: "x * 2 ^ k < real_of_int \<lfloor>x * 2 ^ k\<rfloor> + 1" by linarith
  have mm: "\<bar>real_of_int m\<bar> \<le> 2 ^ 53"
  proof -
    have ab: "\<bar>x * 2 ^ k\<bar> = \<bar>x\<bar> * 2 ^ k" by (simp add: abs_mult)
    have a: "- (2 ^ 53) < x * 2 ^ k" "x * 2 ^ k < 2 ^ 53"
      using hi unfolding ab [symmetric] by linarith+
    have b: "\<lfloor>x * 2 ^ k\<rfloor> \<le> m \<and> m \<le> \<lfloor>x * 2 ^ k\<rfloor> + 1"
      using m by (auto simp: roundHalfEven_def Let_def split: if_splits)
    have c: "- (2 ^ 53) \<le> \<lfloor>x * 2 ^ k\<rfloor>" using a(1) by (simp add: le_floor_iff)
    have d: "\<lfloor>x * 2 ^ k\<rfloor> + 1 \<le> 2 ^ 53" using a(2) by (simp add: floor_less_iff)
    have "- (2 ^ 53) \<le> m \<and> m \<le> 2 ^ 53" using b c d by linarith
    then show ?thesis by (simp add: abs_le_iff)
  qed
  have k1: "(1::real) \<le> 2 ^ k" by simp
  have "\<bar>real_of_int m\<bar> * 1 \<le> \<bar>real_of_int m\<bar> * 2 ^ k"
    using k1 by (intro mult_left_mono) simp_all
  then have "\<bar>real_of_int m / 2 ^ k\<bar> \<le> \<bar>real_of_int m\<bar>"
    by (simp add: field_simps)
  also have "\<dots> \<le> 2 ^ 53" by (rule mm)
  also have "\<dots> < (2::real) ^ 1024" by simp
  finally have y: "\<bar>real_of_int m / 2 ^ k\<bar> < 2 ^ 1024" .
  have y1: "\<not> 2 ^ 1024 \<le> real_of_int m / 2 ^ k" using y by linarith
  have y2: "\<not> real_of_int m / 2 ^ k \<le> - (2 ^ 1024)" using y by linarith
  show ?thesis
    unfolding rnd_def Let_def e u using x0 m y1 y2
    by simp
qed

lemma rnd_zero: "rnd 0 = Fin 0"
  by (simp add: rnd_def)

lemma rnd_one: "rnd 1 = Fin 1"
  using rnd_eval [of 52 1 "2 ^ 52"] by (simp add: roundHalfEven_def Let_def)

text \<open>The roundings that the closed examples below go through, each checked by \<open>rnd_eval\<close>.\<close>

lemma rnd_value_01: "rnd (3 / 20) = Fin (5404319552844595 / 36028797018963968)"
  using rnd_eval [of 55 "3 / 20" "5404319552844595"]
  by (simp add: roundHalfEven_def Let_def)

lemma rnd_value_02: "rnd (3 / 10) = Fin (5404319552844595 / 18014398509481984)"
  using rnd_eval [of 54 "3 / 10" "5404319552844595"]
  by (simp add: roundHalfEven_def Let_def)

lemma rnd_value_03: "rnd (41433116571808563 / 36028797018963968) = Fin (2589569785738035 / 2251799813685248)"
  using rnd_eval [of 52 "41433116571808563 / 36028797018963968" "5179139571476070"]
  by (simp add: roundHalfEven_def Let_def)

lemma rnd_value_04: "rnd (64739244643450875 / 1125899906842624) = Fin (8092405580431359 / 140737488355328)"
  using rnd_eval [of 47 "64739244643450875 / 1125899906842624" "8092405580431359"]
  by (simp add: roundHalfEven_def Let_def)

lemma rnd_value_05: "rnd (23418718062326579 / 18014398509481984) = Fin (5854679515581645 / 4503599627370496)"
  using rnd_eval [of 52 "23418718062326579 / 18014398509481984" "5854679515581645"]
  by (simp add: roundHalfEven_def Let_def)

lemma rnd_value_06: "rnd (29273397577908225 / 4503599627370496) = Fin (13 / 2)"
  using rnd_eval [of 50 "29273397577908225 / 4503599627370496" "7318349394477056"]
  by (simp add: roundHalfEven_def Let_def)

lemma rnd_value_07: "rnd (11) = Fin 11"
  using rnd_eval [of 49 "11" "6192449487634432"]
  by (simp add: roundHalfEven_def Let_def)

lemma rnd_value_08: "rnd (9727076909039105 / 281474976710656) = Fin (18998197087967 / 549755813888)"
  using rnd_eval [of 47 "9727076909039105 / 281474976710656" "4863538454519552"]
  by (simp add: roundHalfEven_def Let_def)

lemma rnd_value_09: "rnd (18998197087967 / 98956046499840) = Fin (3458516234325015 / 18014398509481984)"
  using rnd_eval [of 55 "18998197087967 / 98956046499840" "6917032468650030"]
  by (simp add: roundHalfEven_def Let_def)

lemma rnd_value_10: "rnd (293 / 4) = Fin (293 / 4)"
  using rnd_eval [of 46 "293 / 4" "5154510511013888"]
  by (simp add: roundHalfEven_def Let_def)

lemma rnd_value_11: "rnd (259093957668041615 / 1125899906842624) = Fin (2024171544281575 / 8796093022208)"
  using rnd_eval [of 45 "259093957668041615 / 1125899906842624" "8096686177126300"]
  by (simp add: roundHalfEven_def Let_def)

lemma rnd_value_12: "rnd (404834308856315 / 316659348799488) = Fin (2878821751867129 / 2251799813685248)"
  using rnd_eval [of 52 "404834308856315 / 316659348799488" "5757643503734258"]
  by (simp add: roundHalfEven_def Let_def)

lemma rnd_value_13: "rnd (3458516234325015 / 36028797018963968) = Fin (3458516234325015 / 36028797018963968)"
  using rnd_eval [of 56 "3458516234325015 / 36028797018963968" "6917032468650030"]
  by (simp add: roundHalfEven_def Let_def)

lemma rnd_value_14: "rnd (745289981774461876547816403001 / 81129638414606681695789005144064) = Fin (5295603825846213 / 576460752303423488)"
  using rnd_eval [of 59 "745289981774461876547816403001 / 81129638414606681695789005144064" "5295603825846213"]
  by (simp add: roundHalfEven_def Let_def)

lemma rnd_value_15: "rnd (71626657239287955 / 562949953421312) = Fin (4476666077455497 / 35184372088832)"
  using rnd_eval [of 46 "71626657239287955 / 562949953421312" "8953332154910994"]
  by (simp add: roundHalfEven_def Let_def)

lemma rnd_value_16: "rnd (1492222025818499 / 2111062325329920) = Fin (1591703494206399 / 2251799813685248)"
  using rnd_eval [of 53 "1492222025818499 / 2111062325329920" "6366813976825596"]
  by (simp add: roundHalfEven_def Let_def)

lemma rnd_value_17: "rnd (91080811057366165 / 562949953421312) = Fin (5692550691085385 / 35184372088832)"
  using rnd_eval [of 45 "91080811057366165 / 562949953421312" "5692550691085385"]
  by (simp add: roundHalfEven_def Let_def)

lemma rnd_value_18: "rnd (1138510138217077 / 1266637395197952) = Fin (8096072093988103 / 9007199254740992)"
  using rnd_eval [of 53 "1138510138217077 / 1266637395197952" "8096072093988103"]
  by (simp add: roundHalfEven_def Let_def)

lemma rnd_value_19: "rnd (38403837451366052602091378839581 / 81129638414606681695789005144064) = Fin (33310019197241 / 70368744177664)"
  using rnd_eval [of 54 "38403837451366052602091378839581 / 81129638414606681695789005144064" "8527364914493696"]
  by (simp add: roundHalfEven_def Let_def)

lemma rnd_value_20: "rnd (2878821751867129 / 4503599627370496) = Fin (2878821751867129 / 4503599627370496)"
  using rnd_eval [of 53 "2878821751867129 / 4503599627370496" "5757643503734258"]
  by (simp add: roundHalfEven_def Let_def)

lemma rnd_value_21: "rnd (44747604849015995481397644987 / 158456325028528675187087900672) = Fin (635901711362635 / 2251799813685248)"
  using rnd_eval [of 54 "44747604849015995481397644987 / 158456325028528675187087900672" "5087213690901080"]
  by (simp add: roundHalfEven_def Let_def)

lemma rnd_value_22: "rnd (854249837995442860040181948945 / 5070602400912917605986812821504) = Fin (6069810169119043 / 36028797018963968)"
  using rnd_eval [of 55 "854249837995442860040181948945 / 5070602400912917605986812821504" "6069810169119043"]
  by (simp add: roundHalfEven_def Let_def)

lemma rnd_value_23: "rnd (102412566531750901 / 576460752303423488) = Fin (6400785408234431 / 36028797018963968)"
  using rnd_eval [of 55 "102412566531750901 / 576460752303423488" "6400785408234431"]
  by (simp add: roundHalfEven_def Let_def)

lemma rnd_value_24: "rnd (29628011610729537 / 36028797018963968) = Fin (462937681417649 / 562949953421312)"
  using rnd_eval [of 53 "29628011610729537 / 36028797018963968" "7407002902682384"]
  by (simp add: roundHalfEven_def Let_def)

lemma rnd_value_25: "rnd (979741360882449 / 1125899906842624) = Fin (979741360882449 / 1125899906842624)"
  using rnd_eval [of 53 "979741360882449 / 1125899906842624" "7837930887059592"]
  by (simp add: roundHalfEven_def Let_def)

lemma rnd_value_26: "rnd (6241932210182082579 / 1125899906842624) = Fin (1523909231001485 / 274877906944)"
  using rnd_eval [of 40 "6241932210182082579 / 1125899906842624" "6095636924005940"]
  by (simp add: roundHalfEven_def Let_def)

lemma rnd_value_27: "rnd (18 / 5) = Fin (8106479329266893 / 2251799813685248)"
  using rnd_eval [of 51 "18 / 5" "8106479329266893"]
  by (simp add: roundHalfEven_def Let_def)

lemma rnd_value_28: "rnd (1013309916158361625 / 1125899906842624) = Fin 900"
  using rnd_eval [of 43 "1013309916158361625 / 1125899906842624" "7916483719987200"]
  by (simp add: roundHalfEven_def Let_def)

lemma rnd_value_29: "rnd (304781846200297 / 49478023249920) = Fin (6935480233535647 / 1125899906842624)"
  using rnd_eval [of 50 "304781846200297 / 49478023249920" "6935480233535647"]
  by (simp add: roundHalfEven_def Let_def)

lemma rnd_value_30: "rnd (104032203503034705 / 281474976710656) = Fin (6502012718939669 / 17592186044416)"
  using rnd_eval [of 44 "104032203503034705 / 281474976710656" "6502012718939669"]
  by (simp add: roundHalfEven_def Let_def)

lemma rnd_value_31: "rnd (2 / 5) = Fin (3602879701896397 / 9007199254740992)"
  using rnd_eval [of 54 "2 / 5" "7205759403792794"]
  by (simp add: roundHalfEven_def Let_def)

lemma rnd_value_32: "rnd (1 / 5) = Fin (3602879701896397 / 18014398509481984)"
  using rnd_eval [of 55 "1 / 5" "7205759403792794"]
  by (simp add: roundHalfEven_def Let_def)

lemma rnd_value_33: "rnd (1 / 10) = Fin (3602879701896397 / 36028797018963968)"
  using rnd_eval [of 56 "1 / 10" "7205759403792794"]
  by (simp add: roundHalfEven_def Let_def)

lemma rnd_value_34: "rnd (479070410361536475 / 1125899906842624) = Fin (7485475161899007 / 17592186044416)"
  using rnd_eval [of 44 "479070410361536475 / 1125899906842624" "7485475161899007"]
  by (simp add: roundHalfEven_def Let_def)

lemma rnd_value_35: "rnd (55) = Fin 55"
  using rnd_eval [of 47 "55" "7740561859543040"]
  by (simp add: roundHalfEven_def Let_def)

lemma rnd_value_36: "rnd (25500) = Fin 25500"
  using rnd_eval [of 38 "25500" "7009386627072000"]
  by (simp add: roundHalfEven_def Let_def)

lemma rnd_value_37: "rnd (25500000) = Fin 25500000"
  using rnd_eval [of 28 "25500000" "6845104128000000"]
  by (simp add: roundHalfEven_def Let_def)

lemma rnd_value_38: "rnd (1700025500000) = Fin 1700025500000"
  using rnd_eval [of 12 "1700025500000" "6963304448000000"]
  by (simp add: roundHalfEven_def Let_def)

lemma rnd_value_39: "rnd (- 16) = Fin (- 16)"
  using rnd_eval [of 48 "- 16" "- 4503599627370496"]
  by (simp add: roundHalfEven_def Let_def)

lemma rnd_value_40: "rnd (- (884279719003555 / 17592186044416)) = Fin (- (884279719003555 / 17592186044416))"
  using rnd_eval [of 47 "- (884279719003555 / 17592186044416)" "- 7074237752028440"]
  by (simp add: roundHalfEven_def Let_def)

lemma rnd_value_41: "rnd (- (176855943800711 / 633318697598976)) = Fin (- (5030569068109113 / 18014398509481984))"
  using rnd_eval [of 54 "- (176855943800711 / 633318697598976)" "- 5030569068109113"]
  by (simp add: roundHalfEven_def Let_def)

lemma rnd_value_42: "rnd (- 180) = Fin (- 180)"
  using rnd_eval [of 45 "- 180" "- 6333186975989760"]
  by (simp add: roundHalfEven_def Let_def)

lemma rnd_value_43: "rnd (- (39792587355159975 / 70368744177664)) = Fin (- (4974073419394997 / 8796093022208))"
  using rnd_eval [of 43 "- (39792587355159975 / 70368744177664)" "- 4974073419394997"]
  by (simp add: roundHalfEven_def Let_def)

lemma rnd_value_44: "rnd (- (4974073419394997 / 1583296743997440)) = Fin (- (884279719003555 / 281474976710656))"
  using rnd_eval [of 51 "- (4974073419394997 / 1583296743997440)" "- 7074237752028440"]
  by (simp add: roundHalfEven_def Let_def)

lemma rnd_value_45: "rnd (- (5030569068109113 / 36028797018963968)) = Fin (- (5030569068109113 / 36028797018963968))"
  using rnd_eval [of 55 "- (5030569068109113 / 36028797018963968)" "- 5030569068109113"]
  by (simp add: roundHalfEven_def Let_def)

lemma rnd_value_46: "rnd (25142596810554238581887470460529 / 1298074214633706907132624082305024) = Fin (1395694493897217 / 72057594037927936)"
  using rnd_eval [of 58 "25142596810554238581887470460529 / 1298074214633706907132624082305024" "5582777975588868"]
  by (simp add: roundHalfEven_def Let_def)

lemma rnd_value_47: "rnd (884279719003555 / 35184372088832) = Fin (884279719003555 / 35184372088832)"
  using rnd_eval [of 48 "884279719003555 / 35184372088832" "7074237752028440"]
  by (simp add: roundHalfEven_def Let_def)

lemma rnd_value_48: "rnd (176855943800711 / 1266637395197952) = Fin (5030569068109113 / 36028797018963968)"
  using rnd_eval [of 55 "176855943800711 / 1266637395197952" "5030569068109113"]
  by (simp add: roundHalfEven_def Let_def)

lemma rnd_value_49: "rnd (- (884279719003555 / 35184372088832)) = Fin (- (884279719003555 / 35184372088832))"
  using rnd_eval [of 48 "- (884279719003555 / 35184372088832)" "- 7074237752028440"]
  by (simp add: roundHalfEven_def Let_def)

lemma rnd_value_50: "rnd (- (176855943800711 / 1266637395197952)) = Fin (- (5030569068109113 / 36028797018963968))"
  using rnd_eval [of 55 "- (176855943800711 / 1266637395197952)" "- 5030569068109113"]
  by (simp add: roundHalfEven_def Let_def)

lemma rnd_value_51: "rnd (19889556528486762294526464184969 / 20282409603651670423947251286016) = Fin (8832737443003841 / 9007199254740992)"
  using rnd_eval [of 53 "19889556528486762294526464184969 / 20282409603651670423947251286016" "8832737443003841"]
  by (simp add: roundHalfEven_def Let_def)

lemma rnd_value_52: "rnd (- (884279719003555 / 562949953421312)) = Fin (- (884279719003555 / 562949953421312))"
  using rnd_eval [of 52 "- (884279719003555 / 562949953421312)" "- 7074237752028440"]
  by (simp add: roundHalfEven_def Let_def)

lemma rnd_value_53: "rnd (- (8832737443003841 / 9007199254740992)) = Fin (- (8832737443003841 / 9007199254740992))"
  using rnd_eval [of 53 "- (8832737443003841 / 9007199254740992)" "- 8832737443003841"]
  by (simp add: roundHalfEven_def Let_def)

lemma rnd_value_54: "rnd (8832737443003841 / 9007199254740992) = Fin (8832737443003841 / 9007199254740992)"
  using rnd_eval [of 53 "8832737443003841 / 9007199254740992" "8832737443003841"]
  by (simp add: roundHalfEven_def Let_def)

lemma rnd_value_55: "rnd (72057594037927945 / 72057594037927936) = Fin (4503599627370497 / 4503599627370496)"
  using rnd_eval [of 52 "72057594037927945 / 72057594037927936" "4503599627370497"]
  by (simp add: roundHalfEven_def Let_def)

lemma rnd_value_56: "rnd (- (1 / 4503599627370496)) = Fin (- (1 / 4503599627370496))"
  using rnd_eval [of 104 "- (1 / 4503599627370496)" "- 4503599627370496"]
  by (simp add: roundHalfEven_def Let_def)

lemma rnd_value_57: "rnd (16) = Fin 16"
  using rnd_eval [of 48 "16" "4503599627370496"]
  by (simp add: roundHalfEven_def Let_def)

lemma rnd_value_58: "rnd (884279719003555 / 17592186044416) = Fin (884279719003555 / 17592186044416)"
  using rnd_eval [of 47 "884279719003555 / 17592186044416" "7074237752028440"]
  by (simp add: roundHalfEven_def Let_def)

lemma rnd_value_59: "rnd (176855943800711 / 633318697598976) = Fin (5030569068109113 / 18014398509481984)"
  using rnd_eval [of 54 "176855943800711 / 633318697598976" "5030569068109113"]
  by (simp add: roundHalfEven_def Let_def)

lemma rnd_value_60: "rnd (180) = Fin 180"
  using rnd_eval [of 45 "180" "6333186975989760"]
  by (simp add: roundHalfEven_def Let_def)

lemma rnd_value_61: "rnd (39792587355159975 / 70368744177664) = Fin (4974073419394997 / 8796093022208)"
  using rnd_eval [of 43 "39792587355159975 / 70368744177664" "4974073419394997"]
  by (simp add: roundHalfEven_def Let_def)

lemma rnd_value_62: "rnd (4974073419394997 / 1583296743997440) = Fin (884279719003555 / 281474976710656)"
  using rnd_eval [of 51 "4974073419394997 / 1583296743997440" "7074237752028440"]
  by (simp add: roundHalfEven_def Let_def)

lemma rnd_value_63: "rnd (5030569068109113 / 36028797018963968) = Fin (5030569068109113 / 36028797018963968)"
  using rnd_eval [of 55 "5030569068109113 / 36028797018963968" "5030569068109113"]
  by (simp add: roundHalfEven_def Let_def)

lemma rnd_value_64: "rnd (884279719003555 / 562949953421312) = Fin (884279719003555 / 562949953421312)"
  using rnd_eval [of 52 "884279719003555 / 562949953421312" "7074237752028440"]
  by (simp add: roundHalfEven_def Let_def)

lemma rnd_value_65: "rnd (176855943800711 / 10133099161583616) = Fin (5030569068109113 / 288230376151711744)"
  using rnd_eval [of 58 "176855943800711 / 10133099161583616" "5030569068109113"]
  by (simp add: roundHalfEven_def Let_def)

lemma rnd_value_66: "rnd (- (5030569068109113 / 18014398509481984)) = Fin (- (5030569068109113 / 18014398509481984))"
  using rnd_eval [of 54 "- (5030569068109113 / 18014398509481984)" "- 5030569068109113"]
  by (simp add: roundHalfEven_def Let_def)

lemma rnd_value_67: "rnd (- (226375608064910085 / 72057594037927936)) = Fin (- (884279719003555 / 281474976710656))"
  using rnd_eval [of 51 "- (226375608064910085 / 72057594037927936)" "- 7074237752028440"]
  by (simp add: roundHalfEven_def Let_def)

lemma rnd_value_68: "rnd (5030569068109113 / 18014398509481984) = Fin (5030569068109113 / 18014398509481984)"
  using rnd_eval [of 54 "5030569068109113 / 18014398509481984" "5030569068109113"]
  by (simp add: roundHalfEven_def Let_def)

lemma rnd_value_69: "rnd (226375608064910085 / 72057594037927936) = Fin (884279719003555 / 281474976710656)"
  using rnd_eval [of 51 "226375608064910085 / 72057594037927936" "7074237752028440"]
  by (simp add: roundHalfEven_def Let_def)

lemmas rnd_values =
  rnd_value_01 rnd_value_02 rnd_value_03 rnd_value_04 rnd_value_05 rnd_value_06
  rnd_value_07 rnd_value_08 rnd_value_09 rnd_value_10 rnd_value_11 rnd_value_12
  rnd_value_13 rnd_value_14 rnd_value_15 rnd_value_16 rnd_value_17 rnd_value_18
  rnd_value_19 rnd_value_20 rnd_value_21 rnd_value_22 rnd_value_23 rnd_value_24
  rnd_value_25 rnd_value_26 rnd_value_27 rnd_value_28 rnd_value_29 rnd_value_30
  rnd_value_31 rnd_value_32 rnd_value_33 rnd_value_34 rnd_value_35 rnd_value_36
  rnd_value_37 rnd_value_38 rnd_value_39 rnd_value_40 rnd_value_41 rnd_value_42
  rnd_value_43 rnd_value_44 rnd_value_45 rnd_value_46 rnd_value_47 rnd_value_48
  rnd_value_49 rnd_value_50 rnd_value_51 rnd_value_52 rnd_value_53 rnd_value_54
  rnd_value_55 rnd_value_56 rnd_value_57 rnd_value_58 rnd_value_59 rnd_value_60
  rnd_value_61 rnd_value_62 rnd_value_63 rnd_value_64 rnd_value_65 rnd_value_66
  rnd_value_67 rnd_value_68 rnd_value_69

text \<open>
  Two products that exact arithmetic rounds the other way: 50 minutes with delay factor
  0.15 become 57 (the double product is just below 57.5), and 5 minutes with delay factor
  0.3 become 7 (the double product is exactly 6.5).
\<close>

lemma rounding_examples:
  "Math_round (dmul (Fin 50) (dadd (Fin 1) (rnd (3 / 20)))) = Fin 57"
  "Math_round (dmul (Fin 5) (dadd (Fin 1) (rnd (3 / 10)))) = Fin 7"
  by (simp_all add: rnd_values)

section \<open>Results about distances and ETAs\<close>

text \<open>
  C8. The positions (8, 0) and (-8, -180) are valid and antipodal. The rounded haversine
  term a exceeds 1 there, the square root of 1 - a is NaN, and so is the distance, in
  both directions and for both functions; NaN is not equal to itself, so the two
  distances do not compare equal.
\<close>

theorem antipodal_distance_is_nan:
  "validPosition (Fin 8) (Fin 0) \<and> validPosition (Fin (- 8)) (Fin (- 180))
   \<and> calculateDistance referenceMath (Fin 8) (Fin 0) (Fin (- 8)) (Fin (- 180)) = NaN
   \<and> calculateDistance referenceMath (Fin (- 8)) (Fin (- 180)) (Fin 8) (Fin 0) = NaN
   \<and> distanceTo referenceMath
        \<lparr>vehicle_id = ''a1b2c3'', latitude = Fin 8, longitude = Fin 0, speed = Fin 250\<rparr>
        (Fin (- 8)) (Fin (- 180)) = NaN
   \<and> distanceTo referenceMath
        \<lparr>vehicle_id = ''d4e5f6'', latitude = Fin (- 8), longitude = Fin (- 180), speed = Fin 250\<rparr>
        (Fin 8) (Fin 0) = NaN
   \<and> \<not> strictEq (calculateDistance referenceMath (Fin 8) (Fin 0) (Fin (- 8)) (Fin (- 180)))
          (calculateDistance referenceMath (Fin (- 8)) (Fin (- 180)) (Fin 8) (Fin 0))"
  by (simp add: validPosition_def strictEq_def calculateDistance_def distanceTo_def toRad_def dsub_def Math_atan2_def
        referenceMath_def Let_def rnd_zero rnd_values)

lemma roundHalfEven_nonpos: "x \<le> 0 \<Longrightarrow> roundHalfEven x \<le> 0"
proof -
  assume x: "x \<le> 0"
  have f: "\<lfloor>x\<rfloor> \<le> 0" using x by (simp add: floor_le_iff) 
  show ?thesis
  proof (cases "x = of_int \<lfloor>x\<rfloor>")
    case True
    then have "x - of_int \<lfloor>x\<rfloor> = 0" by simp
    then show ?thesis using f by (simp add: roundHalfEven_def Let_def)
  next
    case False
    then have "of_int \<lfloor>x\<rfloor> < x" using of_int_floor_le [of x] by linarith
    then have "of_int \<lfloor>x\<rfloor> < (0::real)" using x by linarith
    then have "\<lfloor>x\<rfloor> < 0" by simp
    then have "\<lfloor>x\<rfloor> + 1 \<le> 0" by linarith
    then show ?thesis using f by (auto simp: roundHalfEven_def Let_def)
  qed
qed

lemma rnd_nonpos: "x \<le> 0 \<Longrightarrow> dle (rnd x) (Fin 0)"
proof -
  assume x: "x \<le> 0"
  define u :: real where "u = 2 powi (max (- 1022) \<lfloor>log 2 \<bar>x\<bar>\<rfloor> - 52)"
  have u: "0 < u" unfolding u_def by simp
  have "x / u \<le> 0" using x u by (simp add: divide_nonpos_pos)
  then have "roundHalfEven (x / u) \<le> 0" by (rule roundHalfEven_nonpos)
  then have "real_of_int (roundHalfEven (x / u)) \<le> 0" by simp
  then have y: "real_of_int (roundHalfEven (x / u)) * u \<le> 0"
    using u by (simp add: mult_nonpos_nonneg)
  then have n: "\<not> 2 ^ 1024 \<le> real_of_int (roundHalfEven (x / u)) * u"
    using zero_less_power [of "2::real" 1024] by linarith
  show ?thesis
    using y n unfolding rnd_def Let_def u_def [symmetric] by simp
qed

lemma speedKmh_nonpos:
  assumes "dle s (Fin 0)"
  shows "dle (dmul s (rnd 3.6)) (Fin 0)"
proof (cases s)
  case (Fin x)
  then have "x \<le> 0" using assms by simp
  then have "x * (8106479329266893 / 2251799813685248) \<le> 0"
    by (simp add: mult_nonpos_nonneg)
  then show ?thesis using Fin by (simp add: rnd_values rnd_nonpos)
qed (use assms in \<open>simp_all add: rnd_values signedInf_def\<close>)

text \<open>
  What the standing flight gets where an ETA is computed: Infinity from
  Flight.calculateETA for every destination, and on the page, once the destination
  coordinates pass the guard, an infinite base and adjusted ETA with factor 1 and no
  added minutes, whatever the weather.
\<close>

lemma stationary_eta_is_infinite:
  assumes "dle (speed v) (Fin 0)" and "dle (FlightData.speed fl) (Fin 0)"
      and "present (dest_lat sh)" and "present (dest_lon sh)"
  shows "Flight_calculateETA lib v destLat destLon = PosInf
         \<and> (\<exists>r. calculateETA lib now (Some fl) (Some sh) w = Some r
                \<and> baseEtaMinutes r = PosInf
                \<and> etaMinutes r = PosInf
                \<and> addedMinutes (weatherDelay r) = Fin 0
                \<and> factor (weatherDelay r) = Fin 1)"
  using assms speedKmh_nonpos [of "speed v"] speedKmh_nonpos [of "FlightData.speed fl"]
  by (auto simp: Flight_calculateETA_def calculateETA_def present_def Let_def
           split: option.splits)

text \<open>
  C5. With a destination on the equator the page computes no ETA at all for a standing
  flight: the guard takes the latitude 0 for a missing one and returns null, where
  Flight.calculateETA returns Infinity for the same flight and destination.
\<close>

theorem equator_destination_has_no_eta:
  "calculateETA referenceMath (Fin 1700000000000)
     (Some \<lparr>FlightData.icao24 = ''a1b2c3'', latitude = Fin 10, longitude = Fin 20,
            speed = Fin 0\<rparr>)
     (Some \<lparr>dest_lat = Some (Fin 0), dest_lon = Some (Fin 20)\<rparr>)
     None = None
   \<and> Flight_calculateETA referenceMath
     \<lparr>vehicle_id = ''a1b2c3'', latitude = Fin 10, longitude = Fin 20, speed = Fin 0,
      icao24 = ''a1b2c3'', callsign = ''UAL123'', altitude = Fin 0, heading = Fin 90,
      originCountry = ''United States'', verticalRate = Fin 0, onGround = True\<rparr>
     (Fin 0) (Fin 20) = PosInf"
  by (simp add: calculateETA_def Flight_calculateETA_def truthy_def Let_def rnd_zero rnd_values)

lemma factor_getWeatherDelayFactor:
  assumes "noNaNDelay w"
  shows "factor (getWeatherDelayFactor w) =
           dadd (Fin 1) (Math_max (originDelayFactor w) (destinationDelayFactor w))"
proof (cases w)
  case None
  then show ?thesis
    by (simp add: getWeatherDelayFactor_def originDelayFactor_def destinationDelayFactor_def
          Math_max_def rnd_one)
next
  case (Some rw)
  have o: "delayOr0 (origin rw) = suppliedDelay (origin rw)"
    using assms Some
    by (cases "origin rw")
       (auto simp: noNaNDelay_def originDelayFactor_def delayOr0_def suppliedDelay_def truthy_def)
  have d: "delayOr0 (destination rw) = suppliedDelay (destination rw)"
    using assms Some
    by (cases "destination rw")
       (auto simp: noNaNDelay_def destinationDelayFactor_def delayOr0_def suppliedDelay_def
             truthy_def)
  show ?thesis
    using Some
    by (simp add: getWeatherDelayFactor_def originDelayFactor_def destinationDelayFactor_def
          Let_def o d)
qed

text \<open>
  For every weather state, also one that supplies a NaN, the multiplier is 1 plus the
  larger of the two factors as the page reads them (a falsy factor reads as 0).
\<close>

lemma factor_as_read:
  "factor (getWeatherDelayFactor w) =
     (case w of None \<Rightarrow> Fin 1
      | Some rw \<Rightarrow>
          dadd (Fin 1) (Math_max (delayOr0 (origin rw)) (delayOr0 (destination rw))))"
  by (simp add: getWeatherDelayFactor_def Let_def split: option.splits)

text \<open>
  C6. Whenever the page computes an ETA whose base is finite, for any weather state
  (absent, or with either verdict absent): the multiplier is 1 plus the larger of the
  origin and destination delay factors, each taken as 0 when not supplied; the ETA is
  round(base * multiplier); and the added minutes are that ETA minus the base. Sum,
  product and difference are those of the doubles. A verdict of the data model has its
  delay factor between 0 and 1; the theorem asks only that no supplied factor is NaN.
\<close>

theorem weather_adjusted_eta:
  assumes "calculateETA lib now assignedFlight shipment w = Some r"
      and "isFinite (baseEtaMinutes r)"
      and "noNaNDelay w"
  shows "factor (weatherDelay r) =
           dadd (Fin 1) (Math_max (originDelayFactor w) (destinationDelayFactor w))
         \<and> etaMinutes r = Math_round (dmul (baseEtaMinutes r) (factor (weatherDelay r)))
         \<and> addedMinutes (weatherDelay r) = dsub (etaMinutes r) (baseEtaMinutes r)"
  using assms(1,2) factor_getWeatherDelayFactor [OF assms(3)]
  by (auto simp: calculateETA_def Let_def isFinite_def
           split: option.splits if_splits)

text \<open>
  A flight from (40.5, -73.75) to (51.5, -0.5) at 250 m/s, 5543.9 km and 370 minutes away;
  rain at the origin with delay factor 0.15 makes the ETA 425 minutes (the double product
  370 * 1.15 is just below 425.5).
\<close>

lemma calculateETA_route:
  "calculateETA referenceMath (Fin 1700000000000)
     (Some \<lparr>FlightData.icao24 = ''a1b2c3'', latitude = Fin (81 / 2),
            longitude = Fin (- (295 / 4)), speed = Fin 250\<rparr>)
     (Some \<lparr>dest_lat = Some (Fin (103 / 2)), dest_lon = Some (Fin (- (1 / 2)))\<rparr>)
     (Some \<lparr>origin = Some \<lparr>type = ''rain'', delayFactor = Fin (5404319552844595 / 36028797018963968)\<rparr>,
            destination = Some \<lparr>type = ''clear'', delayFactor = Fin 0\<rparr>\<rparr>)
   = Some \<lparr>distanceKm = Fin (1523909231001485 / 274877906944), baseEtaMinutes = Fin 370, etaMinutes = Fin 425,
           etaTime = Some (Fin 1700025500000),
           weatherDelay = \<lparr>factor = Fin (2589569785738035 / 2251799813685248),
                           reason = ''Moderate weather conditions'', severity = ''medium'',
                           addedMinutes = Fin 55\<rparr>\<rparr>"
  by (simp add: calculateETA_def getWeatherDelayFactor_def delayOr0_def typeOr_def truthy_def
        Math_max_def dge_def dgt_def strictEq_def calculateDistance_def distanceTo_def toRad_def dsub_def Math_atan2_def
        referenceMath_def Let_def rnd_zero rnd_values)

theorem weather_adjusted_eta_witness:
  "calculateETA referenceMath (Fin 1700000000000)
     (Some \<lparr>FlightData.icao24 = ''a1b2c3'', latitude = Fin (81 / 2),
            longitude = Fin (- (295 / 4)), speed = Fin 250\<rparr>)
     (Some \<lparr>dest_lat = Some (Fin (103 / 2)), dest_lon = Some (Fin (- (1 / 2)))\<rparr>)
     (Some \<lparr>origin = Some \<lparr>type = ''rain'', delayFactor = Fin (5404319552844595 / 36028797018963968)\<rparr>,
            destination = Some \<lparr>type = ''clear'', delayFactor = Fin 0\<rparr>\<rparr>)
   = Some \<lparr>distanceKm = Fin (1523909231001485 / 274877906944), baseEtaMinutes = Fin 370, etaMinutes = Fin 425,
           etaTime = Some (Fin 1700025500000),
           weatherDelay = \<lparr>factor = Fin (2589569785738035 / 2251799813685248),
                           reason = ''Moderate weather conditions'', severity = ''medium'',
                           addedMinutes = Fin 55\<rparr>\<rparr>
   \<and> dadd (Fin 1) (Math_max (Fin (5404319552844595 / 36028797018963968)) (Fin 0))
       = Fin (2589569785738035 / 2251799813685248)
   \<and> Math_round (dmul (Fin 370) (Fin (2589569785738035 / 2251799813685248))) = Fin 425
   \<and> dsub (Fin 425) (Fin 370) = Fin 55"
  using weather_adjusted_eta [OF calculateETA_route]
  by (simp add: calculateETA_route isFinite_def noNaNDelay_def originDelayFactor_def
        destinationDelayFactor_def suppliedDelay_def Math_max_def dsub_def rnd_values)

section \<open>Results about the CSV report\<close>

lemma readQuoted_replaceQuotes:
  assumes "rest = [] \<or> hd rest \<noteq> dquote"
  shows "readQuoted (replaceQuotes v @ dquote # rest) = Some (v, rest)"
  using assms
proof (induction v)
  case Nil
  then show ?case by (cases rest) auto
next
  case (Cons c cs)
  then show ?case
    by (cases "replaceQuotes cs @ dquote # rest") auto
qed

lemma replaceQuotes_concat:
  "replaceQuotes v = concat (map (\<lambda>c. if c = dquote then [dquote, dquote] else [c]) v)"
  by (induction v) auto

text \<open>
  C7. A string value v stored in a row under a column key is rendered as v between double
  quotes with every double quote of v doubled, and a reader of quoted fields gets v back
  from the rendered field, whatever follows the field (the end of the line, or a comma
  and the next field; anything but a further quote).
\<close>

theorem csv_string_field_roundtrip:
  assumes "row (key col) = Some (StringV v)"
      and "rest = [] \<or> hd rest \<noteq> dquote"
  shows "csvValue toISOString String row col = dquote # replaceQuotes v @ [dquote]
         \<and> replaceQuotes v = concat (map (\<lambda>c. if c = dquote then [dquote, dquote] else [c]) v)
         \<and> readField (csvValue toISOString String row col @ rest) = Some (v, rest)"
  using assms readQuoted_replaceQuotes [of rest v] replaceQuotes_concat [of v]
  by (simp add: csvValue_def readField_def)

theorem csv_string_field_roundtrip_witness:
  "csvValue (\<lambda>d. []) (\<lambda>x. [])
     [''origin'' \<mapsto> StringV (''Test '' @ dquote # ''City'' @ [dquote])]
     \<lparr>key = ''origin'', header = ''Origin''\<rparr>
     = dquote # ''Test '' @ dquote # dquote # ''City'' @ [dquote, dquote, dquote]
   \<and> readField
       (csvValue (\<lambda>d. []) (\<lambda>x. [])
          [''origin'' \<mapsto> StringV (''Test '' @ dquote # ''City'' @ [dquote])]
          \<lparr>key = ''origin'', header = ''Origin''\<rparr> @ comma # dquote # ''Dest'' @ [dquote])
     = Some (''Test '' @ dquote # ''City'' @ [dquote], comma # dquote # ''Dest'' @ [dquote])"
  using csv_string_field_roundtrip
    [of "[''origin'' \<mapsto> StringV (''Test '' @ dquote # ''City'' @ [dquote])]"
        "\<lparr>key = ''origin'', header = ''Origin''\<rparr>"
        "''Test '' @ dquote # ''City'' @ [dquote]"
        "comma # dquote # ''Dest'' @ [dquote]" "\<lambda>d. []" "\<lambda>x. []"]
  by (simp add: dquote_def comma_def csvValue_def readField_def)

end
